theory Spec2Isabelle
  imports Main
begin

section \<open>Data model\<close>

text \<open>
  A Python \<open>str\<close> is a sequence of Unicode code points; \<open>len\<close> and slicing count code
  points. A code point is modelled as a natural number, and \<open>py\<close> embeds an ASCII
  literal.
\<close>

type_synonym pystr = "nat list"

definition py :: "string \<Rightarrow> pystr" where
  "py s = map of_char s"

text \<open>Values of type \<open>Any\<close> that occur as page metadata.\<close>

datatype pyval = PyNone | PyInt int | PyStr pystr

text \<open>A LangChain document: a metadata dictionary and the text.\<close>

record Document =
  metadata :: "pystr \<rightharpoonup> pyval"
  page_content :: pystr

text \<open>
  Exceptions (subclasses of \<open>Exception\<close>) that can reach the code of the repository.
  \<open>ProviderError\<close> stands for anything an external library raises (PDF parsing, the
  embedding or generation provider, the vector store); every exception carries the text
  that \<open>str(e)\<close> is built from.
\<close>

datatype error =
    FileNotFoundError pystr
  | KeyError pystr
  | AttributeError pystr
  | ProviderError pystr

text \<open>The text of the \<open>AttributeError\<close> raised by a method call on \<open>None\<close>.\<close>

definition none_has_no_attribute :: "pystr \<Rightarrow> pystr" where
  "none_has_no_attribute name =
     [39] @ py ''NoneType'' @ [39] @ py '' object has no attribute '' @ [39] @ name @ [39]"

fun str_of :: "error \<Rightarrow> pystr" where
  "str_of (FileNotFoundError m) = m"
| "str_of (KeyError k) = [39] @ k @ [39]"
| "str_of (AttributeError m) = m"
| "str_of (ProviderError m) = m"

subsection \<open>config.py\<close>

definition LLM_MODEL :: pystr where
  "LLM_MODEL = py ''gemini-1.5-flash''"

definition LLM_TEMPERATURE :: int where
  "LLM_TEMPERATURE = 0"

definition EMBEDDING_MODEL :: pystr where
  "EMBEDDING_MODEL = py ''models/text-embedding-004''"

definition CHUNK_SIZE :: nat where
  "CHUNK_SIZE = 5000"

definition CHUNK_OVERLAP :: nat where
  "CHUNK_OVERLAP = 1000"

definition RETRIEVER_K :: nat where
  "RETRIEVER_K = 3"

subsection \<open>External objects\<close>

text \<open>
  The objects of the external libraries are values built from the arguments the code
  passes to their constructors. A \<open>Chroma\<close> store is its embedding function (the
  engine's \<open>embeddings\<close> field as it is when the store is made) and the documents of
  its collection.
\<close>

datatype ChatModel = ChatGoogleGenerativeAI pystr int

datatype Embedder = GoogleGenerativeAIEmbeddings pystr

datatype VectorStore = Chroma "Embedder option" "Document list"

text \<open>
  The chain of \<open>create_retrieval_chain\<close>: the store behind the retriever, the retriever's
  \<open>k\<close>, the prompt template and the chat model of the document chain.
\<close>

datatype Chain = RetrievalChain VectorStore nat pystr "ChatModel option"

text \<open>
  The dictionary a chain returns. The code reads \<open>response.get("context", [])\<close> and
  \<open>response["answer"]\<close>, so either key may be absent.
\<close>

record response =
  context_key :: "Document list option"
  answer_key :: "pystr option"

subsection \<open>The index directory\<close>

text \<open>
  The index directory \<open>VECTORSTORE_DIR\<close>: absent, present without the catalog file
  \<open>chroma.sqlite3\<close>, or present with the catalog and the chunks persisted in it.
\<close>

datatype vs_dir = NoDir | DirWithoutCatalog | DirWithCatalog "Document list"

subsection \<open>The environment of one run\<close>

text \<open>
  What the external collaborators do is a parameter: which constructor raises, what the
  PDF loader and the splitter return, what a chain answers. \<open>PDF_PATH\<close> depends on where
  the package is installed; \<open>SYSTEM_PROMPT\<close> is the template text of config.py.
  Two calls work on the index directory beyond what the code of the repository writes
  there, so the environment says what they leave: \<open>Chroma.from_documents\<close> opens the
  store (which creates the catalog file) before it embeds, so when it raises the
  environment gives the error and the directory left behind; a chain's invocation runs
  on the live store handle, so \<open>invoke\<close> takes the directory and returns it with its
  outcome. \<open>rmtree\<close> and \<open>mkdir\<close> are taken to succeed.
\<close>

record env =
  PDF_PATH :: pystr
  SYSTEM_PROMPT :: pystr
  llm_raises :: "error option"
  embeddings_raises :: "error option"
  chroma_raises :: "error option"
  loader_load :: "error + Document list"
  split_documents :: "nat \<Rightarrow> nat \<Rightarrow> Document list \<Rightarrow> error + Document list"
  from_documents_raises :: "(error \<times> vs_dir) option"
  chain_raises :: "error option"
  invoke :: "Chain \<Rightarrow> pystr \<Rightarrow> vs_dir \<Rightarrow> (error + response) \<times> vs_dir"

subsection \<open>The world: files and the calls made so far\<close>

text \<open>The calls that leave the repository's code, in the order they are made.\<close>

datatype event =
    SetEnviron
  | NewChatModel
  | NewEmbeddings
  | ChromaOpen
  | PdfLoad
  | SplitDocuments
  | FromDocuments
  | CreateChain
  | Invoke pystr
  | Rmtree
  | Mkdir

record world =
  pdf_exists :: bool
  vectorstore_dir :: vs_dir
  trace :: "event list"

definition emit :: "event \<Rightarrow> world \<Rightarrow> world" where
  "emit ev w = w\<lparr>trace := trace w @ [ev]\<rparr>"

subsection \<open>The engine object\<close>

record engine =
  llm :: "ChatModel option"
  embeddings :: "Embedder option"
  vectorstore :: "VectorStore option"
  rag_chain :: "Chain option"

record Source =
  page :: pyval
  content :: pystr

record result =
  answer :: pystr
  sources :: "Source list"
  question :: pystr

section \<open>rag\_engine.py\<close>

text \<open>
  A method takes the object and the world and returns its outcome (\<open>Inl\<close> an exception)
  with the object and the world as it leaves them; what it assigned before raising
  stays assigned.
\<close>

definition vectorstore_exists :: "world \<Rightarrow> bool" where
  "vectorstore_exists w =
     (case vectorstore_dir w of DirWithCatalog _ \<Rightarrow> True | _ \<Rightarrow> False)"

definition load_vectorstore ::
  "env \<Rightarrow> engine \<Rightarrow> world \<Rightarrow> (error + unit) \<times> engine \<times> world" where
  "load_vectorstore env self w =
     (let w1 = emit ChromaOpen w in
      case chroma_raises env of
        Some err \<Rightarrow> (Inl err, self, w1)
      | None \<Rightarrow>
          (case vectorstore_dir w of
             DirWithCatalog docs \<Rightarrow>
               (Inr (), self\<lparr>vectorstore := Some (Chroma (embeddings self) docs)\<rparr>, w1)
           | _ \<Rightarrow>
               (Inr (), self\<lparr>vectorstore := Some (Chroma (embeddings self) [])\<rparr>,
                w1\<lparr>vectorstore_dir := DirWithCatalog []\<rparr>)))"

definition pdf_not_found_message :: "env \<Rightarrow> pystr" where
  "pdf_not_found_message env =
     [10060] @ py '' PDF no encontrado en: '' @ PDF_PATH env @ [10] @
     py ''Por favor, coloca '' @ [39] @ py ''constitucion_colombia.pdf'' @ [39] @
     py '' en la carpeta '' @ [39] @ py ''data/'' @ [39]"

definition create_vectorstore ::
  "env \<Rightarrow> engine \<Rightarrow> world \<Rightarrow> (error + unit) \<times> engine \<times> world" where
  "create_vectorstore env self w =
     (if \<not> pdf_exists w then
        (Inl (FileNotFoundError (pdf_not_found_message env)), self, w)
      else
        let w1 = emit PdfLoad w in
        case loader_load env of
          Inl err \<Rightarrow> (Inl err, self, w1)
        | Inr documents \<Rightarrow>
            let w2 = emit SplitDocuments w1 in
            (case split_documents env CHUNK_SIZE CHUNK_OVERLAP documents of
               Inl err \<Rightarrow> (Inl err, self, w2)
             | Inr splits \<Rightarrow>
                 let w3 = emit FromDocuments w2 in
                 (case from_documents_raises env of
                    Some (err, left) \<Rightarrow> (Inl err, self, w3\<lparr>vectorstore_dir := left\<rparr>)
                  | None \<Rightarrow>
                      (Inr (),
                       self\<lparr>vectorstore := Some (Chroma (embeddings self) splits)\<rparr>,
                       w3\<lparr>vectorstore_dir :=
                            (case vectorstore_dir w3 of
                               DirWithCatalog old \<Rightarrow> DirWithCatalog (old @ splits)
                             | _ \<Rightarrow> DirWithCatalog splits)\<rparr>))))"

definition create_rag_chain ::
  "env \<Rightarrow> engine \<Rightarrow> world \<Rightarrow> (error + unit) \<times> engine \<times> world" where
  "create_rag_chain env self w =
     (case vectorstore self of
        None \<Rightarrow> (Inl (AttributeError (none_has_no_attribute (py ''as_retriever''))), self, w)
      | Some vs \<Rightarrow>
          let w1 = emit CreateChain w in
          (case chain_raises env of
             Some err \<Rightarrow> (Inl err, self, w1)
           | None \<Rightarrow>
               (Inr (),
                self\<lparr>rag_chain :=
                       Some (RetrievalChain vs RETRIEVER_K (SYSTEM_PROMPT env) (llm self))\<rparr>,
                w1)))"

definition initialize ::
  "env \<Rightarrow> engine \<Rightarrow> world \<Rightarrow> (error + unit) \<times> engine \<times> world" where
  "initialize env self w =
     (let w1 = emit NewChatModel w in
      case llm_raises env of
        Some err \<Rightarrow> (Inl err, self, w1)
      | None \<Rightarrow>
          let self1 = self\<lparr>llm := Some (ChatGoogleGenerativeAI LLM_MODEL LLM_TEMPERATURE)\<rparr>;
              w2 = emit NewEmbeddings w1 in
          (case embeddings_raises env of
             Some err \<Rightarrow> (Inl err, self1, w2)
           | None \<Rightarrow>
               let self2 = self1\<lparr>embeddings :=
                                    Some (GoogleGenerativeAIEmbeddings EMBEDDING_MODEL)\<rparr> in
               (case (if vectorstore_exists w2
                      then load_vectorstore env self2 w2
                      else create_vectorstore env self2 w2) of
                  (Inl err, self3, w3) \<Rightarrow> (Inl err, self3, w3)
                | (Inr _, self3, w3) \<Rightarrow> create_rag_chain env self3 w3)))"

text \<open>The constructor \<open>RAGEngine()\<close>: the new object when \<open>__init__\<close> returns.\<close>

definition RAGEngine :: "env \<Rightarrow> world \<Rightarrow> (error + engine) \<times> world" where
  "RAGEngine env w =
     (let w1 = emit SetEnviron w;
          self = \<lparr>llm = None, embeddings = None, vectorstore = None, rag_chain = None\<rparr> in
      case initialize env self w1 of
        (Inl err, _, w2) \<Rightarrow> (Inl err, w2)
      | (Inr _, self', w2) \<Rightarrow> (Inr self', w2))"

text \<open>The loop of \<open>query\<close> that appends one source per retrieved document.\<close>

definition source_of :: "Document \<Rightarrow> Source" where
  "source_of doc =
     \<lparr>page = (case metadata doc (py ''page'') of None \<Rightarrow> PyStr (py ''N/A'') | Some v \<Rightarrow> v),
      content = (if length (page_content doc) > 200
                 then take 200 (page_content doc) @ py ''...''
                 else page_content doc)\<rparr>"

fun extract_sources :: "Source list \<Rightarrow> Document list \<Rightarrow> Source list" where
  "extract_sources srcs [] = srcs"
| "extract_sources srcs (doc # docs) = extract_sources (srcs @ [source_of doc]) docs"

definition query ::
  "env \<Rightarrow> engine \<Rightarrow> world \<Rightarrow> pystr \<Rightarrow> (error + result) \<times> engine \<times> world" where
  "query env self w q =
     (case rag_chain self of
        None \<Rightarrow> (Inl (AttributeError (none_has_no_attribute (py ''invoke''))), self, w)
      | Some chain \<Rightarrow>
          (case invoke env chain q (vectorstore_dir w) of
             (outcome, left) \<Rightarrow>
               let w1 = (emit (Invoke q) w)\<lparr>vectorstore_dir := left\<rparr> in
               (case outcome of
                  Inl err \<Rightarrow> (Inl err, self, w1)
                | Inr response \<Rightarrow>
                    let srcs = extract_sources []
                          (case context_key response of None \<Rightarrow> [] | Some docs \<Rightarrow> docs) in
                    (case answer_key response of
                       None \<Rightarrow> (Inl (KeyError (py ''answer'')), self, w1)
                     | Some a \<Rightarrow>
                         (Inr \<lparr>answer = a, sources = srcs, question = q\<rparr>,
                          self, w1)))))"

text \<open>The deletion step of \<open>rebuild_vectorstore\<close>: \<open>rmtree\<close> and \<open>mkdir\<close> when the directory exists.\<close>

definition delete_vectorstore :: "world \<Rightarrow> world" where
  "delete_vectorstore w =
     (case vectorstore_dir w of
        NoDir \<Rightarrow> w
      | _ \<Rightarrow> (emit Mkdir (emit Rmtree w))\<lparr>vectorstore_dir := DirWithoutCatalog\<rparr>)"

definition rebuild_vectorstore ::
  "env \<Rightarrow> engine \<Rightarrow> world \<Rightarrow> (error + unit) \<times> engine \<times> world" where
  "rebuild_vectorstore env self w =
     (case create_vectorstore env self (delete_vectorstore w) of
        (Inl err, self1, w1) \<Rightarrow> (Inl err, self1, w1)
      | (Inr _, self1, w1) \<Rightarrow> create_rag_chain env self1 w1)"

subsection \<open>The module-level singleton\<close>

text \<open>The process: the world and the module variable \<open>_rag_instance\<close>.\<close>

record process =
  world_of :: world
  rag_instance :: "engine option"

definition get_rag_engine :: "env \<Rightarrow> process \<Rightarrow> (error + engine) \<times> process" where
  "get_rag_engine env p =
     (case rag_instance p of
        None \<Rightarrow>
          (case RAGEngine env (world_of p) of
             (Inl err, w') \<Rightarrow> (Inl err, p\<lparr>world_of := w'\<rparr>)
           | (Inr e, w') \<Rightarrow> (Inr e, p\<lparr>world_of := w', rag_instance := Some e\<rparr>))
      | Some e \<Rightarrow> (Inr e, p))"

section \<open>main.py\<close>

text \<open>
  The request model: \<open>question: str = Field(..., min_length=3, max_length=500)\<close>. The
  framework validates the body against it before the handler runs.
\<close>

datatype validation_error = string_too_short | string_too_long

definition QueryRequest :: "pystr \<Rightarrow> validation_error + pystr" where
  "QueryRequest q =
     (if length q < 3 then Inl string_too_short
      else if length q > 500 then Inl string_too_long
      else Inr q)"

text \<open>\<open>QueryResponse(answer, sources, question)\<close> and \<open>HealthResponse(status, message, vectorstore_ready)\<close>.\<close>

datatype QueryResponse = QueryResponse pystr "Source list" pystr

datatype HealthResponse = HealthResponse pystr pystr bool

text \<open>
  What a request gets: the handler's return value, the \<open>HTTPException\<close> it raised
  (status code and detail), or the framework's rejection of the body.
\<close>

datatype 'a http = Returned 'a | HTTPException nat pystr | RequestValidationError validation_error

text \<open>
  \<open>health_check\<close> has a result of its own (\<open>Inl\<close> would be an exception leaving the
  handler).
\<close>

definition health_check :: "env \<Rightarrow> process \<Rightarrow> (error + HealthResponse) \<times> process" where
  "health_check env p =
     (case get_rag_engine env p of
        (Inr e, p1) \<Rightarrow>
          (Inr (HealthResponse (py ''healthy'') (py ''API funcionando correctamente'')
                  (vectorstore e \<noteq> None)), p1)
      | (Inl err, p1) \<Rightarrow>
          (Inr (HealthResponse (py ''unhealthy'') (py ''Error: '' @ str_of err) False), p1))"

text \<open>
  The engine a handler works on is the object \<open>_rag_instance\<close> refers to, so what a
  method assigns to it is written back to the process.
\<close>

definition query_constitution ::
  "env \<Rightarrow> pystr \<Rightarrow> process \<Rightarrow> QueryResponse http \<times> process" where
  "query_constitution env body p =
     (case QueryRequest body of
        Inl v \<Rightarrow> (RequestValidationError v, p)
      | Inr q \<Rightarrow>
          (case get_rag_engine env p of
             (Inl err, p1) \<Rightarrow>
               (HTTPException 500 (py ''Error al procesar consulta: '' @ str_of err), p1)
           | (Inr e, p1) \<Rightarrow>
               (case query env e (world_of p1) q of
                  (Inl err, e', w') \<Rightarrow>
                    (HTTPException 500 (py ''Error al procesar consulta: '' @ str_of err),
                     p1\<lparr>world_of := w', rag_instance := Some e'\<rparr>)
                | (Inr r, e', w') \<Rightarrow>
                    (Returned (QueryResponse (answer r) (sources r) (question r)),
                     p1\<lparr>world_of := w', rag_instance := Some e'\<rparr>))))"

datatype rebuild_response = RebuildResponse pystr pystr

definition rebuild_vectorstore_endpoint ::
  "env \<Rightarrow> process \<Rightarrow> rebuild_response http \<times> process" where
  "rebuild_vectorstore_endpoint env p =
     (case get_rag_engine env p of
        (Inl err, p1) \<Rightarrow>
          (HTTPException 500 (py ''Error al reconstruir vectorstore: '' @ str_of err), p1)
      | (Inr e, p1) \<Rightarrow>
          (case rebuild_vectorstore env e (world_of p1) of
             (Inl err, e', w') \<Rightarrow>
               (HTTPException 500 (py ''Error al reconstruir vectorstore: '' @ str_of err),
                p1\<lparr>world_of := w', rag_instance := Some e'\<rparr>)
           | (Inr _, e', w') \<Rightarrow>
               (Returned (RebuildResponse (py ''success'')
                            (py ''Vectorstore reconstruido exitosamente'')),
                p1\<lparr>world_of := w', rag_instance := Some e'\<rparr>)))"

section \<open>Concrete runs\<close>

text \<open>Two retrieved documents: a short one with a page number, a long one without.\<close>

definition doc_short :: Document where
  "doc_short = \<lparr>metadata = [py ''page'' \<mapsto> PyInt 42], page_content = py ''Articulo 86''\<rparr>"

definition doc_long :: Document where
  "doc_long = \<lparr>metadata = Map.empty, page_content = replicate 201 120\<rparr>"

definition resp0 :: response where
  "resp0 = \<lparr>context_key = Some [doc_short, doc_long], answer_key = Some (py ''ok'')\<rparr>"

text \<open>An environment in which every external call succeeds.\<close>

definition env0 :: env where
  "env0 = \<lparr>PDF_PATH = py ''data/constitucion_colombia.pdf'',
           SYSTEM_PROMPT = py ''{context} {question}'',
           llm_raises = None, embeddings_raises = None, chroma_raises = None,
           loader_load = Inr [doc_short],
           split_documents = (\<lambda>size overlap docs. Inr docs),
           from_documents_raises = None, chain_raises = None,
           invoke = (\<lambda>chain q dir. (Inr resp0, dir))\<rparr>"

text \<open>The same, with the PDF loader failing, and with the embedding of the chunks failing.\<close>

definition env_load_fails :: env where
  "env_load_fails = env0\<lparr>loader_load := Inl (ProviderError (py ''boom''))\<rparr>"

definition env_embed_fails :: env where
  "env_embed_fails =
     env0\<lparr>from_documents_raises := Some (ProviderError (py ''boom''), DirWithCatalog [])\<rparr>"


definition world_persisted :: world where
  "world_persisted =
     \<lparr>pdf_exists = False, vectorstore_dir = DirWithCatalog [doc_short], trace = []\<rparr>"

definition world_nothing :: world where
  "world_nothing = \<lparr>pdf_exists = False, vectorstore_dir = DirWithoutCatalog, trace = []\<rparr>"

text \<open>The engine that \<open>RAGEngine()\<close> builds in \<open>world_persisted\<close>.\<close>

definition store0 :: VectorStore where
  "store0 = Chroma (Some (GoogleGenerativeAIEmbeddings EMBEDDING_MODEL)) [doc_short]"

definition chain0 :: Chain where
  "chain0 = RetrievalChain store0 RETRIEVER_K (py ''{context} {question}'')
              (Some (ChatGoogleGenerativeAI LLM_MODEL LLM_TEMPERATURE))"

definition engine0 :: engine where
  "engine0 = \<lparr>llm = Some (ChatGoogleGenerativeAI LLM_MODEL LLM_TEMPERATURE),
              embeddings = Some (GoogleGenerativeAIEmbeddings EMBEDDING_MODEL),
              vectorstore = Some store0,
              rag_chain = Some chain0\<rparr>"

definition process_ready :: process where
  "process_ready = \<lparr>world_of = world_persisted, rag_instance = Some engine0\<rparr>"

definition process_ready_pdf :: process where
  "process_ready_pdf =
     \<lparr>world_of = world_persisted\<lparr>pdf_exists := True\<rparr>, rag_instance = Some engine0\<rparr>"

definition process_nothing :: process where
  "process_nothing = \<lparr>world_of = world_nothing, rag_instance = None\<rparr>"

text \<open>A process that has not yet accessed the engine, with a persisted index on disk.\<close>

definition process_first :: process where
  "process_first = \<lparr>world_of = world_persisted, rag_instance = None\<rparr>"

text \<open>An environment in which the chain's invocation fails.\<close>

definition env_generate_fails :: env where
  "env_generate_fails =
     env0\<lparr>invoke := (\<lambda>chain q dir. (Inl (ProviderError (py ''quota'')), dir))\<rparr>"

text \<open>
  An environment whose chain works on the live store handle: while the catalog is there
  it answers and leaves the directory alone; with the catalog gone the invocation
  raises and leaves a new, empty catalog behind.
\<close>

definition env_live :: env where
  "env_live =
     env0\<lparr>invoke := (\<lambda>chain q dir.
             case dir of
               DirWithCatalog docs \<Rightarrow> (Inr resp0, dir)
             | _ \<Rightarrow> (Inl (ProviderError (py ''no such table'')), DirWithCatalog []))\<rparr>"

text \<open>The world a failed rebuild leaves: the index deleted, the directory made anew.\<close>

definition world_deleted :: world where
  "world_deleted =
     \<lparr>pdf_exists = False, vectorstore_dir = DirWithoutCatalog, trace = [Rmtree, Mkdir]\<rparr>"

section \<open>Basic facts\<close>

lemma emit_simps:
  "trace (emit ev w) = trace w @ [ev]"
  "pdf_exists (emit ev w) = pdf_exists w"
  "vectorstore_dir (emit ev w) = vectorstore_dir w"
  by (simp_all add: emit_def)

lemma extract_sources_map: "extract_sources srcs docs = srcs @ map source_of docs"
  by (induction docs arbitrary: srcs) simp_all

text \<open>What \<open>query\<close> does with a chain: one invocation, its outcome turned into the result.\<close>

lemma query_dispatch:
  assumes "rag_chain self = Some chain"
  shows "query env self w q =
           ((case fst (invoke env chain q (vectorstore_dir w)) of
               Inl err \<Rightarrow> Inl err
             | Inr resp \<Rightarrow>
                 (case answer_key resp of
                    None \<Rightarrow> Inl (KeyError (py ''answer''))
                  | Some a \<Rightarrow>
                      Inr \<lparr>answer = a,
                           sources = map source_of
                             (case context_key resp of None \<Rightarrow> [] | Some docs \<Rightarrow> docs),
                           question = q\<rparr>)),
            self,
            (emit (Invoke q) w)\<lparr>vectorstore_dir :=
                                   snd (invoke env chain q (vectorstore_dir w))\<rparr>)"
  using assms
  by (cases "invoke env chain q (vectorstore_dir w)")
    (simp add: query_def extract_sources_map split: sum.splits option.splits)

lemma query_returns:
  assumes "rag_chain self = Some chain"
    and "fst (invoke env chain q (vectorstore_dir w)) = Inr resp"
    and "answer_key resp = Some a"
  shows "query env self w q =
           (Inr \<lparr>answer = a,
                 sources = map source_of
                   (case context_key resp of None \<Rightarrow> [] | Some docs \<Rightarrow> docs),
                 question = q\<rparr>,
            self,
            (emit (Invoke q) w)\<lparr>vectorstore_dir :=
                                   snd (invoke env chain q (vectorstore_dir w))\<rparr>)"
  using assms by (simp add: query_dispatch)

text \<open>The runs used below.\<close>

lemma get0: "get_rag_engine env0 process_ready = (Inr engine0, process_ready)"
  by (simp add: get_rag_engine_def process_ready_def)

lemma get_nothing:
  "get_rag_engine env0 process_nothing =
     (Inl (FileNotFoundError (pdf_not_found_message env0)),
      process_nothing\<lparr>world_of := world_nothing\<lparr>trace := [SetEnviron, NewChatModel, NewEmbeddings]\<rparr>\<rparr>)"
  by (simp add: get_rag_engine_def process_nothing_def RAGEngine_def initialize_def Let_def
      env0_def emit_def world_nothing_def vectorstore_exists_def create_vectorstore_def)

lemma get_rag_engine_Some:
  "rag_instance p = Some e \<Longrightarrow> get_rag_engine env p = (Inr e, p)"
  by (simp add: get_rag_engine_def)

lemma query_env0:
  "query env0 engine0 w q =
     (Inr \<lparr>answer = py ''ok'', sources = map source_of [doc_short, doc_long], question = q\<rparr>,
      engine0, emit (Invoke q) w)"
  by (simp add: query_def engine0_def env0_def resp0_def extract_sources_map emit_def)

lemma RAGEngine_persisted:
  "RAGEngine env0 world_persisted =
     (Inr engine0,
      world_persisted\<lparr>trace := [SetEnviron, NewChatModel, NewEmbeddings, ChromaOpen, CreateChain]\<rparr>)"
  by (simp add: RAGEngine_def initialize_def Let_def env0_def emit_def world_persisted_def
      vectorstore_exists_def load_vectorstore_def create_rag_chain_def engine0_def store0_def
      chain0_def)


lemma RAGEngine_nothing:
  "RAGEngine env0 world_nothing =
     (Inl (FileNotFoundError (pdf_not_found_message env0)),
      world_nothing\<lparr>trace := [SetEnviron, NewChatModel, NewEmbeddings]\<rparr>)"
  by (simp add: RAGEngine_def initialize_def Let_def env0_def emit_def world_nothing_def
      vectorstore_exists_def create_vectorstore_def)

lemma rebuild_pdf_missing:
  "rebuild_vectorstore env0 engine0 world_persisted =
     (Inl (FileNotFoundError (pdf_not_found_message env0)), engine0,
      world_persisted\<lparr>vectorstore_dir := DirWithoutCatalog, trace := [Rmtree, Mkdir]\<rparr>)"
  by (simp add: rebuild_vectorstore_def delete_vectorstore_def create_vectorstore_def
      world_persisted_def emit_def)

lemma rebuild_load_fails:
  "rebuild_vectorstore_endpoint env_load_fails process_ready_pdf =
     (HTTPException 500 (py ''Error al reconstruir vectorstore: boom''),
      \<lparr>world_of = \<lparr>pdf_exists = True, vectorstore_dir = DirWithoutCatalog,
                    trace = [Rmtree, Mkdir, PdfLoad]\<rparr>,
       rag_instance = Some engine0\<rparr>)"
  by (simp add: rebuild_vectorstore_endpoint_def get_rag_engine_def process_ready_pdf_def
      rebuild_vectorstore_def delete_vectorstore_def create_vectorstore_def
      world_persisted_def emit_def env_load_fails_def env0_def py_def)

lemma rebuild_embed_fails:
  "rebuild_vectorstore_endpoint env_embed_fails process_ready_pdf =
     (HTTPException 500 (py ''Error al reconstruir vectorstore: boom''),
      \<lparr>world_of = \<lparr>pdf_exists = True, vectorstore_dir = DirWithCatalog [],
                    trace = [Rmtree, Mkdir, PdfLoad, SplitDocuments, FromDocuments]\<rparr>,
       rag_instance = Some engine0\<rparr>)"
  by (simp add: rebuild_vectorstore_endpoint_def get_rag_engine_def process_ready_pdf_def
      rebuild_vectorstore_def delete_vectorstore_def create_vectorstore_def
      world_persisted_def emit_def env_embed_fails_def env0_def py_def)

lemma rebuild_endpoint_pdf_missing_live:
  "rebuild_vectorstore_endpoint env_live process_ready =
     (HTTPException 500
        (py ''Error al reconstruir vectorstore: '' @ pdf_not_found_message env_live),
      \<lparr>world_of = world_deleted, rag_instance = Some engine0\<rparr>)"
  by (simp add: rebuild_vectorstore_endpoint_def get_rag_engine_def process_ready_def
      rebuild_vectorstore_def delete_vectorstore_def create_vectorstore_def
      world_persisted_def world_deleted_def emit_def)

lemma RAGEngine_trace:
  "\<exists>evs. trace (snd (RAGEngine env w)) = trace w @ SetEnviron # NewChatModel # evs"
  by (auto simp: RAGEngine_def initialize_def load_vectorstore_def create_vectorstore_def
      create_rag_chain_def Let_def emit_simps
      split: option.splits prod.splits sum.splits if_splits vs_dir.splits)

section \<open>Construction\<close>



section \<open>Ingestion\<close>

text \<open>
  C5: when the source document is missing, \<open>_create_vectorstore\<close> raises
  \<open>FileNotFoundError\<close> at once: the world is as it was (no loader, splitter or
  embedding call is in the trace, nothing is written) and the engine is unchanged.
\<close>

theorem create_vectorstore_pdf_missing:
  assumes "\<not> pdf_exists w"
  shows "create_vectorstore env self w =
           (Inl (FileNotFoundError (pdf_not_found_message env)), self, w)"
  using assms by (simp add: create_vectorstore_def)

theorem create_vectorstore_pdf_missing_witness:
  "\<not> pdf_exists world_nothing \<and>
   create_vectorstore env0 engine0 world_nothing =
     (Inl (FileNotFoundError (pdf_not_found_message env0)), engine0, world_nothing)"
proof -
  have h: "\<not> pdf_exists world_nothing" by (simp add: world_nothing_def)
  show ?thesis using h create_vectorstore_pdf_missing [OF h, of env0 engine0] by simp
qed

section \<open>Queries\<close>

text \<open>
  C3: when the chain answers, \<open>query\<close> returns one source per retrieved document, in
  order, and the content of each is the document's text when it has at most 200
  characters, and its first 200 characters followed by \<open>...\<close> otherwise.
\<close>

theorem query_source_content:
  assumes "rag_chain self = Some chain"
    and "fst (invoke env chain q (vectorstore_dir w)) = Inr resp"
    and "answer_key resp = Some a"
    and "docs = (case context_key resp of None \<Rightarrow> [] | Some ds \<Rightarrow> ds)"
  shows "\<exists>r. fst (query env self w q) = Inr r \<and>
           length (sources r) = length docs \<and>
           (\<forall>i < length docs.
              content (sources r ! i) =
                (if length (page_content (docs ! i)) \<le> 200 then page_content (docs ! i)
                 else take 200 (page_content (docs ! i)) @ py ''...''))"
  using assms(4) by (simp add: query_returns [OF assms(1-3)] source_of_def)

theorem query_source_content_witness:
  "\<exists>r. fst (query env0 engine0 world_persisted (py ''tutela'')) = Inr r \<and>
     length (sources r) = 2 \<and>
     content (sources r ! 0) = py ''Articulo 86'' \<and>
     content (sources r ! 1) = replicate 200 120 @ py ''...''"
proof -
  have c: "rag_chain engine0 = Some chain0" by (simp add: engine0_def)
  have i: "fst (invoke env0 chain0 (py ''tutela'') (vectorstore_dir world_persisted)) = Inr resp0"
    by (simp add: env0_def)
  have a: "answer_key resp0 = Some (py ''ok'')" by (simp add: resp0_def)
  have d: "[doc_short, doc_long] = (case context_key resp0 of None \<Rightarrow> [] | Some ds \<Rightarrow> ds)"
    by (simp add: resp0_def)
  from query_source_content [OF c i a d] obtain r where
    r: "fst (query env0 engine0 world_persisted (py ''tutela'')) = Inr r"
      "length (sources r) = 2"
      "\<forall>i < 2. content (sources r ! i) =
         (if length (page_content ([doc_short, doc_long] ! i)) \<le> 200
          then page_content ([doc_short, doc_long] ! i)
          else take 200 (page_content ([doc_short, doc_long] ! i)) @ py ''...'')"
    by auto
  from r(3) have "content (sources r ! 0) = py ''Articulo 86''"
    by (simp add: doc_short_def py_def)
  moreover from r(3) have "content (sources r ! 1) = replicate 200 120 @ py ''...''"
    by (simp add: doc_long_def)
  ultimately show ?thesis using r(1,2) by blast
qed

text \<open>
  C9: when the chain answers, \<open>query\<close> returns whatever the metadata of the
  retrieved documents hold; the page of a source is the document's \<open>page\<close> entry, and
  the string \<open>N/A\<close> when the metadata have no such key.
\<close>

theorem query_page_default:
  assumes "rag_chain self = Some chain"
    and "fst (invoke env chain q (vectorstore_dir w)) = Inr resp"
    and "answer_key resp = Some a"
    and "docs = (case context_key resp of None \<Rightarrow> [] | Some ds \<Rightarrow> ds)"
  shows "\<exists>r. fst (query env self w q) = Inr r \<and>
           length (sources r) = length docs \<and>
           (\<forall>i < length docs.
              page (sources r ! i) =
                (case metadata (docs ! i) (py ''page'') of
                   None \<Rightarrow> PyStr (py ''N/A'') | Some v \<Rightarrow> v))"
  using assms(4) by (simp add: query_returns [OF assms(1-3)] source_of_def)

theorem query_page_default_witness:
  "\<exists>r. fst (query env0 engine0 world_persisted (py ''tutela'')) = Inr r \<and>
     length (sources r) = 2 \<and>
     metadata doc_long (py ''page'') = None \<and>
     page (sources r ! 0) = PyInt 42 \<and>
     page (sources r ! 1) = PyStr (py ''N/A'')"
proof -
  have c: "rag_chain engine0 = Some chain0" by (simp add: engine0_def)
  have i: "fst (invoke env0 chain0 (py ''tutela'') (vectorstore_dir world_persisted)) = Inr resp0"
    by (simp add: env0_def)
  have a: "answer_key resp0 = Some (py ''ok'')" by (simp add: resp0_def)
  have d: "[doc_short, doc_long] = (case context_key resp0 of None \<Rightarrow> [] | Some ds \<Rightarrow> ds)"
    by (simp add: resp0_def)
  from query_page_default [OF c i a d] obtain r where
    r: "fst (query env0 engine0 world_persisted (py ''tutela'')) = Inr r"
      "length (sources r) = 2"
      "\<forall>i < 2. page (sources r ! i) =
         (case metadata ([doc_short, doc_long] ! i) (py ''page'') of
            None \<Rightarrow> PyStr (py ''N/A'') | Some v \<Rightarrow> v)"
    by auto
  from r(3) have "page (sources r ! 0) = PyInt 42"
    by (simp add: doc_short_def)
  moreover from r(3) have "page (sources r ! 1) = PyStr (py ''N/A'')"
    by (simp add: doc_long_def)
  moreover have "metadata doc_long (py ''page'') = None" by (simp add: doc_long_def)
  ultimately show ?thesis using r(1,2) by blast
qed

text \<open>
  C6, as stated, fails for the index: with the catalog deleted by a failed rebuild, the
  chain's invocation on the live store handle raises and leaves a new catalog behind,
  so the directory is not what it was before the query.
\<close>

theorem query_mutates_index_counterexample:
  "vectorstore_dir world_deleted = DirWithoutCatalog \<and>
   query env_live engine0 world_deleted (py ''tutela'') =
     (Inl (ProviderError (py ''no such table'')), engine0,
      \<lparr>pdf_exists = False, vectorstore_dir = DirWithCatalog [],
       trace = [Rmtree, Mkdir, Invoke (py ''tutela'')]\<rparr>)"
  by (simp add: query_def engine0_def env_live_def env0_def world_deleted_def emit_def)

text \<open>
  C6, amended: whatever \<open>query\<close> returns or raises, the engine object is as before
  (its four fields included) and the PDF is untouched. Without a chain nothing at all
  happens; with one, the only call made is the chain's invocation, and the index
  directory after the query is the one that invocation leaves: the code of the query
  path writes nothing there itself.
\<close>

theorem query_frame:
  assumes "query env self w q = (r, self', w')"
  shows "self' = self \<and> llm self' = llm self \<and> embeddings self' = embeddings self \<and>
         vectorstore self' = vectorstore self \<and> rag_chain self' = rag_chain self \<and>
         pdf_exists w' = pdf_exists w \<and>
         (case rag_chain self of
            None \<Rightarrow> w' = w
          | Some chain \<Rightarrow>
              trace w' = trace w @ [Invoke q] \<and>
              vectorstore_dir w' = snd (invoke env chain q (vectorstore_dir w)))"
proof (cases "rag_chain self")
  case None
  with assms show ?thesis by (simp add: query_def)
next
  case (Some chain)
  with assms show ?thesis by (auto simp: query_dispatch emit_simps)
qed

theorem query_frame_witness:
  "snd (query env0 engine0 world_persisted (py ''tutela'')) =
     (engine0, world_persisted\<lparr>trace := [Invoke (py ''tutela'')]\<rparr>) \<and>
   snd (query env_live engine0 world_deleted (py ''tutela'')) =
     (engine0, world_deleted\<lparr>vectorstore_dir := DirWithCatalog [],
                             trace := [Rmtree, Mkdir, Invoke (py ''tutela'')]\<rparr>)"
proof -
  obtain r1 e1 w1 where q1: "query env0 engine0 world_persisted (py ''tutela'') = (r1, e1, w1)"
    by (metis prod_cases3)
  obtain r2 e2 w2 where q2: "query env_live engine0 world_deleted (py ''tutela'') = (r2, e2, w2)"
    by (metis prod_cases3)
  have c: "rag_chain engine0 = Some chain0" by (simp add: engine0_def)
  from query_frame [OF q1] c have 1:
    "e1 = engine0" "pdf_exists w1 = False" "trace w1 = [Invoke (py ''tutela'')]"
    "vectorstore_dir w1 = DirWithCatalog [doc_short]"
    by (simp_all add: world_persisted_def env0_def)
  from query_frame [OF q2] c have 2:
    "e2 = engine0" "pdf_exists w2 = False" "trace w2 = [Rmtree, Mkdir, Invoke (py ''tutela'')]"
    "vectorstore_dir w2 = DirWithCatalog []"
    by (simp_all add: world_deleted_def env_live_def env0_def)
  from 1 have w1: "w1 = world_persisted\<lparr>trace := [Invoke (py ''tutela'')]\<rparr>"
    by (cases w1) (simp add: world_persisted_def)
  from 2 have w2: "w2 = world_deleted\<lparr>vectorstore_dir := DirWithCatalog [],
                                     trace := [Rmtree, Mkdir, Invoke (py ''tutela'')]\<rparr>"
    by (cases w2) (simp add: world_deleted_def)
  from 1(1) 2(1) w1 w2 show ?thesis by (simp add: q1 q2)
qed

section \<open>The health endpoint\<close>

text \<open>
  C10: \<open>health_check\<close> always returns a response. When the engine is obtained it
  reports \<open>healthy\<close> and \<open>vectorstore_ready\<close> is whether the engine's vectorstore is
  not \<open>None\<close>; when obtaining the engine raises it reports \<open>unhealthy\<close> and
  \<open>vectorstore_ready\<close> false.
\<close>

theorem health_check_total:
  "(\<exists>h. fst (health_check env p) = Inr h) \<and>
   (\<forall>e. fst (get_rag_engine env p) = Inr e \<longrightarrow>
      fst (health_check env p) =
        Inr (HealthResponse (py ''healthy'') (py ''API funcionando correctamente'')
               (vectorstore e \<noteq> None))) \<and>
   (\<forall>err. fst (get_rag_engine env p) = Inl err \<longrightarrow>
      fst (health_check env p) =
        Inr (HealthResponse (py ''unhealthy'') (py ''Error: '' @ str_of err) False))"
  by (auto simp: health_check_def split: prod.splits sum.splits)

theorem health_check_total_witness:
  "fst (health_check env0 process_ready) =
     Inr (HealthResponse (py ''healthy'') (py ''API funcionando correctamente'') True) \<and>
   fst (health_check env0 process_nothing) =
     Inr (HealthResponse (py ''unhealthy'')
            (py ''Error: '' @ pdf_not_found_message env0) False)"
proof -
  have a: "fst (get_rag_engine env0 process_ready) = Inr engine0" by (simp add: get0)
  have b: "fst (get_rag_engine env0 process_nothing) =
             Inl (FileNotFoundError (pdf_not_found_message env0))" by (simp add: get_nothing)
  have v: "vectorstore engine0 \<noteq> None" by (simp add: engine0_def)
  from health_check_total [of env0 process_ready] a v
  have 1: "fst (health_check env0 process_ready) =
     Inr (HealthResponse (py ''healthy'') (py ''API funcionando correctamente'') True)"
    by simp
  from health_check_total [of env0 process_nothing] b
  have 2: "fst (health_check env0 process_nothing) =
     Inr (HealthResponse (py ''unhealthy'')
            (py ''Error: '' @ pdf_not_found_message env0) False)"
    by simp
  from 1 2 show ?thesis by simp
qed

section \<open>The singleton\<close>

text \<open>
  C7, as stated, fails when construction raises: with neither index nor PDF the first
  call raises and leaves \<open>_rag_instance\<close> unset, and the second call runs the whole
  initialization again.
\<close>

theorem get_rag_engine_retry_counterexample:
  "fst (get_rag_engine env0 process_nothing) =
     Inl (FileNotFoundError (pdf_not_found_message env0)) \<and>
   rag_instance (snd (get_rag_engine env0 process_nothing)) = None \<and>
   trace (world_of (snd (get_rag_engine env0 process_nothing))) =
     [SetEnviron, NewChatModel, NewEmbeddings] \<and>
   fst (get_rag_engine env0 (snd (get_rag_engine env0 process_nothing))) =
     Inl (FileNotFoundError (pdf_not_found_message env0)) \<and>
   trace (world_of (snd (get_rag_engine env0 (snd (get_rag_engine env0 process_nothing))))) =
     [SetEnviron, NewChatModel, NewEmbeddings, SetEnviron, NewChatModel, NewEmbeddings]"
  by (simp add: get_rag_engine_def process_nothing_def RAGEngine_def initialize_def Let_def
      env0_def emit_def world_nothing_def vectorstore_exists_def create_vectorstore_def)

text \<open>
  C7, amended: once a call of \<open>get_rag_engine\<close> has returned an engine, that engine is
  the stored instance and every later call returns it and leaves the process as it is
  (no call is made, nothing is initialized again); the call that returned it either
  found it stored or constructed it. A call that raises found no instance, failed in
  the constructor and leaves \<open>_rag_instance\<close> unset; the next call then runs the
  constructor again, from its first calls on, and stores the engine only if that
  construction returns one.
\<close>

theorem get_rag_engine_singleton:
  "(get_rag_engine env p = (Inr e, p') \<longrightarrow>
      rag_instance p' = Some e \<and>
      (\<forall>env'. get_rag_engine env' p' = (Inr e, p')) \<and>
      (case rag_instance p of
         None \<Rightarrow> RAGEngine env (world_of p) = (Inr e, world_of p')
       | Some e0 \<Rightarrow> e = e0 \<and> p' = p)) \<and>
   (get_rag_engine env p = (Inl err, p') \<longrightarrow>
      rag_instance p = None \<and> rag_instance p' = None \<and>
      RAGEngine env (world_of p) = (Inl err, world_of p') \<and>
      (\<forall>env'. get_rag_engine env' p' =
                (case RAGEngine env' (world_of p') of
                   (Inl err', w') \<Rightarrow> (Inl err', p'\<lparr>world_of := w'\<rparr>)
                 | (Inr e', w') \<Rightarrow> (Inr e', p'\<lparr>world_of := w', rag_instance := Some e'\<rparr>)) \<and>
              (\<exists>evs. trace (world_of (snd (get_rag_engine env' p'))) =
                       trace (world_of p') @ SetEnviron # NewChatModel # evs)))"
proof (intro conjI impI)
  assume a: "get_rag_engine env p = (Inr e, p')"
  then show "rag_instance p' = Some e"
    by (auto simp: get_rag_engine_def split: option.splits prod.splits sum.splits)
  then show "\<forall>env'. get_rag_engine env' p' = (Inr e, p')"
    by (simp add: get_rag_engine_Some)
  from a show "case rag_instance p of
         None \<Rightarrow> RAGEngine env (world_of p) = (Inr e, world_of p')
       | Some e0 \<Rightarrow> e = e0 \<and> p' = p"
    by (auto simp: get_rag_engine_def split: option.splits prod.splits sum.splits)
next
  assume b: "get_rag_engine env p = (Inl err, p')"
  then show n: "rag_instance p = None"
    by (auto simp: get_rag_engine_def split: option.splits)
  from b show n': "rag_instance p' = None"
    by (auto simp: get_rag_engine_def split: option.splits prod.splits sum.splits)
  from b show "RAGEngine env (world_of p) = (Inl err, world_of p')"
    by (auto simp: get_rag_engine_def split: option.splits prod.splits sum.splits)
  show "\<forall>env'. get_rag_engine env' p' =
                (case RAGEngine env' (world_of p') of
                   (Inl err', w') \<Rightarrow> (Inl err', p'\<lparr>world_of := w'\<rparr>)
                 | (Inr e', w') \<Rightarrow> (Inr e', p'\<lparr>world_of := w', rag_instance := Some e'\<rparr>)) \<and>
              (\<exists>evs. trace (world_of (snd (get_rag_engine env' p'))) =
                       trace (world_of p') @ SetEnviron # NewChatModel # evs)"
  proof
    fix env'
    have 1: "get_rag_engine env' p' =
               (case RAGEngine env' (world_of p') of
                  (Inl err', w') \<Rightarrow> (Inl err', p'\<lparr>world_of := w'\<rparr>)
                | (Inr e', w') \<Rightarrow> (Inr e', p'\<lparr>world_of := w', rag_instance := Some e'\<rparr>))"
      using n' by (simp add: get_rag_engine_def)
    have 2: "world_of (snd (get_rag_engine env' p')) = snd (RAGEngine env' (world_of p'))"
      using n' by (simp add: get_rag_engine_def split: prod.splits sum.splits)
    from 1 2 RAGEngine_trace [of env' "world_of p'"]
    show "get_rag_engine env' p' =
            (case RAGEngine env' (world_of p') of
               (Inl err', w') \<Rightarrow> (Inl err', p'\<lparr>world_of := w'\<rparr>)
             | (Inr e', w') \<Rightarrow> (Inr e', p'\<lparr>world_of := w', rag_instance := Some e'\<rparr>)) \<and>
          (\<exists>evs. trace (world_of (snd (get_rag_engine env' p'))) =
                   trace (world_of p') @ SetEnviron # NewChatModel # evs)"
      by simp
  qed
qed

theorem get_rag_engine_singleton_witness:
  "get_rag_engine env0 process_first =
     (Inr engine0,
      \<lparr>world_of = world_persisted\<lparr>trace := [SetEnviron, NewChatModel, NewEmbeddings,
                                              ChromaOpen, CreateChain]\<rparr>,
       rag_instance = Some engine0\<rparr>) \<and>
   get_rag_engine env_load_fails
     \<lparr>world_of = world_persisted\<lparr>trace := [SetEnviron, NewChatModel, NewEmbeddings,
                                             ChromaOpen, CreateChain]\<rparr>,
      rag_instance = Some engine0\<rparr> =
     (Inr engine0,
      \<lparr>world_of = world_persisted\<lparr>trace := [SetEnviron, NewChatModel, NewEmbeddings,
                                              ChromaOpen, CreateChain]\<rparr>,
       rag_instance = Some engine0\<rparr>) \<and>
   fst (get_rag_engine env0 process_nothing) =
     Inl (FileNotFoundError (pdf_not_found_message env0)) \<and>
   rag_instance (snd (get_rag_engine env0 process_nothing)) = None \<and>
   trace (world_of (snd (get_rag_engine env0 (snd (get_rag_engine env0 process_nothing))))) =
     [SetEnviron, NewChatModel, NewEmbeddings, SetEnviron, NewChatModel, NewEmbeddings]"
proof -
  have g: "get_rag_engine env0 process_first =
     (Inr engine0,
      \<lparr>world_of = world_persisted\<lparr>trace := [SetEnviron, NewChatModel, NewEmbeddings,
                                              ChromaOpen, CreateChain]\<rparr>,
       rag_instance = Some engine0\<rparr>)"
    by (simp add: get_rag_engine_def process_first_def RAGEngine_persisted)
  from get_rag_engine_singleton
         [where env = env0 and p = process_first and e = engine0
            and p' = "\<lparr>world_of = world_persisted\<lparr>trace := [SetEnviron, NewChatModel,
                         NewEmbeddings, ChromaOpen, CreateChain]\<rparr>,
                       rag_instance = Some engine0\<rparr>"] g
  have 1: "get_rag_engine env_load_fails
     \<lparr>world_of = world_persisted\<lparr>trace := [SetEnviron, NewChatModel, NewEmbeddings,
                                             ChromaOpen, CreateChain]\<rparr>,
      rag_instance = Some engine0\<rparr> =
     (Inr engine0,
      \<lparr>world_of = world_persisted\<lparr>trace := [SetEnviron, NewChatModel, NewEmbeddings,
                                              ChromaOpen, CreateChain]\<rparr>,
       rag_instance = Some engine0\<rparr>)"
    by blast
  let ?p1 = "process_nothing\<lparr>world_of :=
                  world_nothing\<lparr>trace := [SetEnviron, NewChatModel, NewEmbeddings]\<rparr>\<rparr>"
  from get_rag_engine_singleton
         [where env = env0 and p = process_nothing and p' = ?p1
            and err = "FileNotFoundError (pdf_not_found_message env0)"] get_nothing
  have 2: "rag_instance ?p1 = None"
    and 3: "get_rag_engine env0 ?p1 =
              (case RAGEngine env0 (world_of ?p1) of
                 (Inl err', w') \<Rightarrow> (Inl err', ?p1\<lparr>world_of := w'\<rparr>)
               | (Inr e', w') \<Rightarrow> (Inr e', ?p1\<lparr>world_of := w', rag_instance := Some e'\<rparr>))"
    by blast+
  have 4: "RAGEngine env0 (world_of ?p1) =
      (Inl (FileNotFoundError (pdf_not_found_message env0)),
       world_nothing\<lparr>trace := [SetEnviron, NewChatModel, NewEmbeddings,
                                 SetEnviron, NewChatModel, NewEmbeddings]\<rparr>)"
    by (simp add: RAGEngine_def initialize_def Let_def env0_def emit_def world_nothing_def
        vectorstore_exists_def create_vectorstore_def)
  from 3 4 have 5: "trace (world_of (snd (get_rag_engine env0 ?p1))) =
     [SetEnviron, NewChatModel, NewEmbeddings, SetEnviron, NewChatModel, NewEmbeddings]"
    by simp
  from g 1 2 5 show ?thesis by (simp add: get_nothing)
qed

section \<open>Rebuild\<close>

text \<open>
  C2, as stated, fails: with the PDF missing, the rebuild endpoint deletes the index and
  answers 500, yet the engine stays installed with its old store and chain, the health
  endpoint reports healthy with the vectorstore ready, and the next query is not
  refused by the engine but dispatched to the old chain, whose invocation fails.
\<close>

theorem failed_rebuild_still_serves_counterexample:
  "fst (rebuild_vectorstore_endpoint env_live process_ready) =
     HTTPException 500
       (py ''Error al reconstruir vectorstore: '' @ pdf_not_found_message env_live) \<and>
   rag_instance (snd (rebuild_vectorstore_endpoint env_live process_ready)) = Some engine0 \<and>
   vectorstore engine0 = Some store0 \<and> rag_chain engine0 = Some chain0 \<and>
   vectorstore_dir (world_of (snd (rebuild_vectorstore_endpoint env_live process_ready))) =
     DirWithoutCatalog \<and>
   fst (health_check env_live (snd (rebuild_vectorstore_endpoint env_live process_ready))) =
     Inr (HealthResponse (py ''healthy'') (py ''API funcionando correctamente'') True) \<and>
   trace (world_of (snd (query_constitution env_live (py ''tutela'')
          (snd (rebuild_vectorstore_endpoint env_live process_ready))))) =
     [Rmtree, Mkdir, Invoke (py ''tutela'')] \<and>
   fst (query_constitution env_live (py ''tutela'')
          (snd (rebuild_vectorstore_endpoint env_live process_ready))) =
     HTTPException 500 (py ''Error al procesar consulta: '' @ py ''no such table'')"
  by (simp add: rebuild_endpoint_pdf_missing_live health_check_def get_rag_engine_def
      query_constitution_def QueryRequest_def query_def emit_def)
    (simp add: engine0_def env_live_def env0_def world_deleted_def py_def emit_def)

text \<open>
  C2, amended: when ingestion fails during a rebuild, the endpoint answers 500 with the
  error's text, and the engine object stays installed with all its fields as before
  the call: later requests obtain that same engine, the health endpoint keeps
  reporting healthy, and a later valid query is dispatched to the previous chain (one
  invocation of it, the engine still installed), its response being what that
  invocation yields: 500 with the error's text when it raises or gives no answer, the
  answer with its sources otherwise.
\<close>

theorem failed_rebuild_keeps_engine:
  assumes "rag_instance p = Some e"
    and "fst (create_vectorstore env e (delete_vectorstore (world_of p))) = Inl err"
  shows "\<exists>p'. rebuild_vectorstore_endpoint env p =
                 (HTTPException 500 (py ''Error al reconstruir vectorstore: '' @ str_of err), p') \<and>
              rag_instance p' = Some e \<and>
              (\<forall>env'. get_rag_engine env' p' = (Inr e, p')) \<and>
              (\<forall>env'. fst (health_check env' p') =
                 Inr (HealthResponse (py ''healthy'') (py ''API funcionando correctamente'')
                        (vectorstore e \<noteq> None))) \<and>
              (\<forall>env' body q chain.
                 QueryRequest body = Inr q \<and> rag_chain e = Some chain \<longrightarrow>
                   trace (world_of (snd (query_constitution env' body p'))) =
                     trace (world_of p') @ [Invoke q] \<and>
                   rag_instance (snd (query_constitution env' body p')) = Some e \<and>
                   fst (query_constitution env' body p') =
                     (case fst (invoke env' chain q (vectorstore_dir (world_of p'))) of
                        Inl err' \<Rightarrow>
                          HTTPException 500 (py ''Error al procesar consulta: '' @ str_of err')
                      | Inr resp \<Rightarrow>
                          (case answer_key resp of
                             None \<Rightarrow>
                               HTTPException 500
                                 (py ''Error al procesar consulta: '' @
                                  str_of (KeyError (py ''answer'')))
                           | Some a \<Rightarrow>
                               Returned (QueryResponse a
                                 (map source_of
                                    (case context_key resp of None \<Rightarrow> [] | Some docs \<Rightarrow> docs))
                                 q))))"
proof -
  obtain r e1 w1 where
    c: "create_vectorstore env e (delete_vectorstore (world_of p)) = (r, e1, w1)"
    by (metis prod_cases3)
  with assms(2) have r: "r = Inl err" by simp
  have e1: "e1 = e"
    using c r
    by (auto simp: create_vectorstore_def Let_def split: if_splits sum.splits option.splits)
  let ?p' = "p\<lparr>world_of := w1, rag_instance := Some e\<rparr>"
  have 1: "rebuild_vectorstore_endpoint env p =
      (HTTPException 500 (py ''Error al reconstruir vectorstore: '' @ str_of err), ?p')"
    using assms(1) c r e1
    by (simp add: rebuild_vectorstore_endpoint_def get_rag_engine_Some rebuild_vectorstore_def)
  have 2: "rag_instance ?p' = Some e" by simp
  have 3: "\<forall>env'. get_rag_engine env' ?p' = (Inr e, ?p')"
    by (simp add: get_rag_engine_Some)
  have 4: "\<forall>env'. fst (health_check env' ?p') =
                 Inr (HealthResponse (py ''healthy'') (py ''API funcionando correctamente'')
                        (vectorstore e \<noteq> None))"
    by (simp add: health_check_def get_rag_engine_Some)
  have 5: "\<forall>env' body q chain.
                 QueryRequest body = Inr q \<and> rag_chain e = Some chain \<longrightarrow>
                   trace (world_of (snd (query_constitution env' body ?p'))) =
                     trace (world_of ?p') @ [Invoke q] \<and>
                   rag_instance (snd (query_constitution env' body ?p')) = Some e \<and>
                   fst (query_constitution env' body ?p') =
                     (case fst (invoke env' chain q (vectorstore_dir (world_of ?p'))) of
                        Inl err' \<Rightarrow>
                          HTTPException 500 (py ''Error al procesar consulta: '' @ str_of err')
                      | Inr resp \<Rightarrow>
                          (case answer_key resp of
                             None \<Rightarrow>
                               HTTPException 500
                                 (py ''Error al procesar consulta: '' @
                                  str_of (KeyError (py ''answer'')))
                           | Some a \<Rightarrow>
                               Returned (QueryResponse a
                                 (map source_of
                                    (case context_key resp of None \<Rightarrow> [] | Some docs \<Rightarrow> docs))
                                 q)))"
    by (auto simp: query_constitution_def get_rag_engine_Some query_dispatch emit_simps
        split: sum.splits option.splits)
  from 1 2 3 4 5 show ?thesis by blast
qed

theorem failed_rebuild_keeps_engine_witness:
  "rag_instance process_ready = Some engine0 \<and>
   fst (create_vectorstore env_live engine0 (delete_vectorstore (world_of process_ready))) =
     Inl (FileNotFoundError (pdf_not_found_message env_live)) \<and>
   rebuild_vectorstore_endpoint env_live process_ready =
     (HTTPException 500
        (py ''Error al reconstruir vectorstore: '' @ pdf_not_found_message env_live),
      \<lparr>world_of = world_deleted, rag_instance = Some engine0\<rparr>) \<and>
   QueryRequest (py ''tutela'') = Inr (py ''tutela'') \<and>
   rag_chain engine0 = Some chain0 \<and>
   trace (world_of (snd (query_constitution env_live (py ''tutela'')
          \<lparr>world_of = world_deleted, rag_instance = Some engine0\<rparr>))) =
     [Rmtree, Mkdir, Invoke (py ''tutela'')] \<and>
   rag_instance (snd (query_constitution env_live (py ''tutela'')
          \<lparr>world_of = world_deleted, rag_instance = Some engine0\<rparr>)) = Some engine0"
proof -
  have a: "rag_instance process_ready = Some engine0" by (simp add: process_ready_def)
  have b: "fst (create_vectorstore env_live engine0 (delete_vectorstore (world_of process_ready))) =
     Inl (FileNotFoundError (pdf_not_found_message env_live))"
    by (simp add: process_ready_def delete_vectorstore_def create_vectorstore_def
        world_persisted_def emit_def)
  have v: "QueryRequest (py ''tutela'') = Inr (py ''tutela'')"
    by (simp add: QueryRequest_def py_def)
  have c: "rag_chain engine0 = Some chain0" by (simp add: engine0_def)
  have t: "trace world_deleted = [Rmtree, Mkdir]" by (simp add: world_deleted_def)
  let ?p' = "\<lparr>world_of = world_deleted, rag_instance = Some engine0\<rparr>"
  from failed_rebuild_keeps_engine [OF a b] rebuild_endpoint_pdf_missing_live
  have "\<forall>env' body q chain.
          QueryRequest body = Inr q \<and> rag_chain engine0 = Some chain \<longrightarrow>
            trace (world_of (snd (query_constitution env' body ?p'))) =
              trace (world_of ?p') @ [Invoke q] \<and>
            rag_instance (snd (query_constitution env' body ?p')) = Some engine0"
    by (simp add: str_of.simps)
  with v c t have
    "trace (world_of (snd (query_constitution env_live (py ''tutela'') ?p'))) =
       [Rmtree, Mkdir, Invoke (py ''tutela'')] \<and>
     rag_instance (snd (query_constitution env_live (py ''tutela'') ?p')) = Some engine0"
    by auto
  with a b v c rebuild_endpoint_pdf_missing_live show ?thesis by simp
qed

section \<open>Validation of the question\<close>

text \<open>
  C4, as stated, fails for the engine's \<open>query\<close>: it validates nothing, and a question
  of length 2, or the empty question, is passed to the chain.
\<close>

theorem query_no_validation_counterexample:
  "length (py ''ab'') = 2 \<and>
   query env0 engine0 world_persisted (py ''ab'') =
     (Inr \<lparr>answer = py ''ok'', sources = map source_of [doc_short, doc_long],
           question = py ''ab''\<rparr>,
      engine0, world_persisted\<lparr>trace := [Invoke (py ''ab'')]\<rparr>) \<and>
   query env0 engine0 world_persisted [] =
     (Inr \<lparr>answer = py ''ok'', sources = map source_of [doc_short, doc_long],
           question = []\<rparr>,
      engine0, world_persisted\<lparr>trace := [Invoke []]\<rparr>)"
  by (simp add: query_env0 emit_def world_persisted_def py_def)

text \<open>
  C4, amended: the request model of the query endpoint rejects a question shorter than
  3 or longer than 500 characters before the handler runs, so the process is untouched
  (the engine is not obtained, no call is made), and accepts every length from 3 to
  500; the engine's \<open>query\<close> itself passes any question to the chain.
\<close>

theorem query_validation_at_endpoint:
  "(length body < 3 \<or> 500 < length body \<longrightarrow>
      (\<exists>v. query_constitution env body p = (RequestValidationError v, p))) \<and>
   (3 \<le> length body \<and> length body \<le> 500 \<longrightarrow> QueryRequest body = Inr body) \<and>
   (rag_chain self = Some chain \<longrightarrow>
      trace (snd (snd (query env self w q))) = trace w @ [Invoke q])"
  by (auto simp: query_constitution_def QueryRequest_def query_dispatch emit_simps)

theorem query_validation_at_endpoint_witness:
  "length (py ''ab'') = 2 \<and>
   query_constitution env0 (py ''ab'') process_ready =
     (RequestValidationError string_too_short, process_ready) \<and>
   length (replicate 501 (97::nat)) = 501 \<and>
   query_constitution env0 (replicate 501 97) process_ready =
     (RequestValidationError string_too_long, process_ready) \<and>
   QueryRequest (py ''abc'') = Inr (py ''abc'') \<and>
   trace (snd (snd (query env0 engine0 world_persisted (py ''ab'')))) = [Invoke (py ''ab'')]"
proof -
  have l2: "length (py ''ab'') = 2" by (simp add: py_def)
  have l501: "length (replicate 501 (97::nat)) = 501" by simp
  have l3: "length (py ''abc'') = 3" by (simp add: py_def)
  have c: "rag_chain engine0 = Some chain0" by (simp add: engine0_def)
  have t: "trace world_persisted = []" by (simp add: world_persisted_def)
  from query_validation_at_endpoint
         [where body = "py ''ab''" and env = env0 and p = process_ready and self = engine0
            and chain = chain0 and w = world_persisted and q = "py ''ab''"] l2
  obtain v where v: "query_constitution env0 (py ''ab'') process_ready =
      (RequestValidationError v, process_ready)" by auto
  then have 1: "query_constitution env0 (py ''ab'') process_ready =
      (RequestValidationError string_too_short, process_ready)"
    by (simp add: query_constitution_def QueryRequest_def l2)
  have 2: "query_constitution env0 (replicate 501 97) process_ready =
      (RequestValidationError string_too_long, process_ready)"
    by (simp add: query_constitution_def QueryRequest_def)
  from query_validation_at_endpoint
         [where body = "py ''abc''" and env = env0 and p = process_ready and self = engine0
            and chain = chain0 and w = world_persisted and q = "py ''ab''"] l3
  have 3: "QueryRequest (py ''abc'') = Inr (py ''abc'')" by simp
  from query_validation_at_endpoint
         [where body = "py ''ab''" and env = env0 and p = process_ready and self = engine0
            and chain = chain0 and w = world_persisted and q = "py ''ab''"] c t
  have 4: "trace (snd (snd (query env0 engine0 world_persisted (py ''ab'')))) =
      [Invoke (py ''ab'')]" by simp
  from l2 l501 1 2 3 4 show ?thesis by simp
qed

section \<open>Errors at the HTTP boundary\<close>

text \<open>
  C8, as stated, fails: a rebuild that fails while loading the PDF and one that fails
  while embedding the chunks, with the same error text, get the same 500 response; the
  detail does not tell the phase.
\<close>

theorem detail_names_no_phase_counterexample:
  "fst (rebuild_vectorstore_endpoint env_load_fails process_ready_pdf) =
     HTTPException 500 (py ''Error al reconstruir vectorstore: boom'') \<and>
   trace (world_of (snd (rebuild_vectorstore_endpoint env_load_fails process_ready_pdf))) =
     [Rmtree, Mkdir, PdfLoad] \<and>
   fst (rebuild_vectorstore_endpoint env_embed_fails process_ready_pdf) =
     HTTPException 500 (py ''Error al reconstruir vectorstore: boom'') \<and>
   trace (world_of (snd (rebuild_vectorstore_endpoint env_embed_fails process_ready_pdf))) =
     [Rmtree, Mkdir, PdfLoad, SplitDocuments, FromDocuments]"
  by (simp add: rebuild_load_fails rebuild_embed_fails)

text \<open>
  C8, amended: an error raised while obtaining the engine, during \<open>query\<close> or during
  the rebuild is answered with status 500, and the detail is the endpoint's fixed
  prefix followed by the text of the error.
\<close>

theorem endpoint_error_is_500:
  "(QueryRequest body = Inr q \<and> fst (get_rag_engine env p) = Inl err \<longrightarrow>
      fst (query_constitution env body p) =
        HTTPException 500 (py ''Error al procesar consulta: '' @ str_of err)) \<and>
   (QueryRequest body = Inr q \<and> get_rag_engine env p = (Inr e, p') \<and>
    fst (query env e (world_of p') q) = Inl err \<longrightarrow>
      fst (query_constitution env body p) =
        HTTPException 500 (py ''Error al procesar consulta: '' @ str_of err)) \<and>
   (fst (get_rag_engine env p) = Inl err \<longrightarrow>
      fst (rebuild_vectorstore_endpoint env p) =
        HTTPException 500 (py ''Error al reconstruir vectorstore: '' @ str_of err)) \<and>
   (get_rag_engine env p = (Inr e, p') \<and>
    fst (rebuild_vectorstore env e (world_of p')) = Inl err \<longrightarrow>
      fst (rebuild_vectorstore_endpoint env p) =
        HTTPException 500 (py ''Error al reconstruir vectorstore: '' @ str_of err))"
  by (auto simp: query_constitution_def rebuild_vectorstore_endpoint_def
      split: prod.splits sum.splits)

theorem endpoint_error_is_500_witness:
  "fst (query_constitution env0 (py ''tutela'') process_nothing) =
     HTTPException 500 (py ''Error al procesar consulta: '' @ pdf_not_found_message env0) \<and>
   fst (query_constitution env_generate_fails (py ''tutela'') process_ready) =
     HTTPException 500 (py ''Error al procesar consulta: '' @ py ''quota'') \<and>
   fst (rebuild_vectorstore_endpoint env0 process_nothing) =
     HTTPException 500
       (py ''Error al reconstruir vectorstore: '' @ pdf_not_found_message env0) \<and>
   fst (rebuild_vectorstore_endpoint env0 process_ready) =
     HTTPException 500
       (py ''Error al reconstruir vectorstore: '' @ pdf_not_found_message env0)"
proof -
  have v: "QueryRequest (py ''tutela'') = Inr (py ''tutela'')"
    by (simp add: QueryRequest_def py_def)
  have g1: "fst (get_rag_engine env0 process_nothing) =
      Inl (FileNotFoundError (pdf_not_found_message env0))"
    by (simp add: get_rag_engine_def process_nothing_def RAGEngine_nothing)
  have g2: "get_rag_engine env_generate_fails process_ready = (Inr engine0, process_ready)"
    by (simp add: get_rag_engine_def process_ready_def)
  have g3: "get_rag_engine env0 process_ready = (Inr engine0, process_ready)"
    by (simp add: get_rag_engine_def process_ready_def)
  have q: "fst (query env_generate_fails engine0 (world_of process_ready) (py ''tutela'')) =
      Inl (ProviderError (py ''quota''))"
    by (simp add: query_def engine0_def env_generate_fails_def env0_def)
  have r: "fst (rebuild_vectorstore env0 engine0 (world_of process_ready)) =
      Inl (FileNotFoundError (pdf_not_found_message env0))"
    by (simp add: process_ready_def rebuild_pdf_missing)
  from endpoint_error_is_500
         [where body = "py ''tutela''" and q = "py ''tutela''" and env = env0
            and p = process_nothing and e = engine0 and p' = process_nothing
            and err = "FileNotFoundError (pdf_not_found_message env0)"] v g1
  have 1: "fst (query_constitution env0 (py ''tutela'') process_nothing) =
     HTTPException 500 (py ''Error al procesar consulta: '' @ pdf_not_found_message env0)"
    and 3: "fst (rebuild_vectorstore_endpoint env0 process_nothing) =
     HTTPException 500
       (py ''Error al reconstruir vectorstore: '' @ pdf_not_found_message env0)"
    by simp_all
  from endpoint_error_is_500
         [where body = "py ''tutela''" and q = "py ''tutela''" and env = env_generate_fails
            and p = process_ready and e = engine0 and p' = process_ready
            and err = "ProviderError (py ''quota'')"] v g2 q
  have 2: "fst (query_constitution env_generate_fails (py ''tutela'') process_ready) =
     HTTPException 500 (py ''Error al procesar consulta: '' @ py ''quota'')"
    by simp
  from endpoint_error_is_500
         [where body = "py ''tutela''" and q = "py ''tutela''" and env = env0
            and p = process_ready and e = engine0 and p' = process_ready
            and err = "FileNotFoundError (pdf_not_found_message env0)"] g3 r
  have 4: "fst (rebuild_vectorstore_endpoint env0 process_ready) =
     HTTPException 500
       (py ''Error al reconstruir vectorstore: '' @ pdf_not_found_message env0)"
    by simp
  from 1 2 3 4 show ?thesis by simp
qed

end
